(* ===== verification/Prelude.thy ===== *)
theory Prelude
  imports Main "HOL-Library.Sublist"
begin

text \<open>
  Shared vocabulary of the development: the JavaScript built-ins that
  \<open>src/app/destinations/page.tsx\<close> calls, written as executable HOL
  functions, and the list lemmas the component theories share.

  \<^item> Strings are \<open>string\<close> (\<open>char list\<close>): the source's literals are held as
    UTF-8 byte sequences, so a non-ASCII character of the catalog is two
    \<open>char\<close>s.
  \<^item> \<open>toLowerCase\<close> is \<open>String.prototype.toLowerCase\<close> on the ASCII letters; the
    catalog's names and descriptions are ASCII, so on them it is exact.
  \<^item> \<open>str_includes\<close> is \<open>String.prototype.includes\<close> (the search loop of
    \<open>StringIndexOf\<close>), proved equal to the library's \<open>sublist\<close>.
  \<^item> \<open>arr_includes\<close> is \<open>Array.prototype.includes\<close> on strings.
  \<^item> \<open>js_truthy\<close> is the truth value of a string in an \<open>if\<close>.
  \<^item> \<open>js_set_from\<close> is \<open>[...new Set(xs)]\<close>: first occurrences, in
    insertion order.
\<close>

named_theorems js_simps "evaluation rules of the modelled JavaScript built-ins"
named_theorems filter_simps "rules that compute the filter passes of the destinations page"

type_synonym js_string = string

abbreviation apos :: char where
  "apos \<equiv> CHR 0x27"

subsection \<open>Strings\<close>

definition js_truthy :: "js_string \<Rightarrow> bool" where
  "js_truthy s \<longleftrightarrow> s \<noteq> []"

definition is_ascii_upper :: "char \<Rightarrow> bool" where
  "is_ascii_upper c \<longleftrightarrow> (65::nat) \<le> of_char c \<and> of_char c \<le> (90::nat)"

definition js_char_lower :: "char \<Rightarrow> char" where
  "js_char_lower c = (if is_ascii_upper c then char_of (of_char c + (32::nat)) else c)"

definition toLowerCase :: "js_string \<Rightarrow> js_string" where
  "toLowerCase s = map js_char_lower s"

text \<open>\<open>haystack.startsWith(needle)\<close>, the inner comparison of the search loop.\<close>

fun startsWith :: "js_string \<Rightarrow> js_string \<Rightarrow> bool" where
  "startsWith hay [] = True"
| "startsWith [] (c # cs) = False"
| "startsWith (h # hs) (c # cs) = (h = c \<and> startsWith hs cs)"

text \<open>\<open>haystack.includes(needle)\<close>: try every start position from the left.\<close>

fun str_includes :: "js_string \<Rightarrow> js_string \<Rightarrow> bool" where
  "str_includes [] needle = (needle = [])"
| "str_includes (h # hs) needle = (startsWith (h # hs) needle \<or> str_includes hs needle)"

text \<open>\<open>array.includes(x)\<close> (SameValueZero is string equality on strings).\<close>

fun arr_includes :: "'a list \<Rightarrow> 'a \<Rightarrow> bool" where
  "arr_includes [] x = False"
| "arr_includes (y # ys) x = (y = x \<or> arr_includes ys x)"

text \<open>\<open>[...new Set(xs)]\<close>: \<open>Set.add\<close> appends a value not yet present.\<close>

definition js_set_add :: "'a list \<Rightarrow> 'a \<Rightarrow> 'a list" where
  "js_set_add acc x = (if x \<in> set acc then acc else acc @ [x])"

definition js_set_from :: "'a list \<Rightarrow> 'a list" where
  "js_set_from xs = foldl js_set_add [] xs"

subsection \<open>Lemmas on the built-ins\<close>

lemma js_truthy_simps [simp, js_simps]:
  "js_truthy [] = False" "js_truthy (c # cs) = True"
  by (simp_all add: js_truthy_def)

lemma startsWith_prefix: "startsWith hay needle \<longleftrightarrow> prefix needle hay"
  by (induction hay needle rule: startsWith.induct) auto

lemma str_includes_sublist: "str_includes hay needle \<longleftrightarrow> sublist needle hay"
proof (induction hay)
  case Nil
  then show ?case by simp
next
  case (Cons h hs)
  then show ?case by (simp add: sublist_Cons_right startsWith_prefix)
qed

lemma arr_includes_set [simp]: "arr_includes xs x \<longleftrightarrow> x \<in> set xs"
  by (induction xs) auto

lemma str_includes_Nil [simp, js_simps]: "str_includes hay []"
  by (cases hay) simp_all

lemma of_char_js_char_lower:
  "of_char (js_char_lower c) = (if is_ascii_upper c then of_char c + 32 else (of_char c :: nat))"
proof -
  have "of_char c < (256::nat)" by (rule nat_of_char_less_256)
  then show ?thesis
    by (auto simp: js_char_lower_def is_ascii_upper_def)
qed

lemma js_char_lower_not_upper: "\<not> is_ascii_upper (js_char_lower c)"
  by (auto simp: is_ascii_upper_def of_char_js_char_lower)

lemma js_char_lower_idem [simp]: "js_char_lower (js_char_lower c) = js_char_lower c"
  using js_char_lower_not_upper [of c] by (simp add: js_char_lower_def [of "js_char_lower c"])

lemma toLowerCase_idem [simp]: "toLowerCase (toLowerCase s) = toLowerCase s"
  by (simp add: toLowerCase_def comp_def)

lemma toLowerCase_simps [simp, js_simps]:
  "toLowerCase [] = []"
  "toLowerCase (c # cs) = js_char_lower c # toLowerCase cs"
  by (simp_all add: toLowerCase_def)

lemma toLowerCase_append [simp]: "toLowerCase (xs @ ys) = toLowerCase xs @ toLowerCase ys"
  by (simp add: toLowerCase_def)

lemma length_toLowerCase [simp]: "length (toLowerCase s) = length s"
  by (simp add: toLowerCase_def)

lemma toLowerCase_Nil_iff [simp]: "toLowerCase s = [] \<longleftrightarrow> s = []"
  by (simp add: toLowerCase_def)

lemma js_set_add_distinct: "distinct acc \<Longrightarrow> distinct (js_set_add acc x)"
  by (simp add: js_set_add_def)

lemma foldl_js_set_add: "foldl js_set_add acc xs = acc @ [x \<leftarrow> rev (remdups (rev xs)). x \<notin> set acc]"
proof (induction xs arbitrary: acc rule: rev_induct)
  case Nil
  then show ?case by simp
next
  case (snoc x xs)
  then show ?case by (auto simp: js_set_add_def)
qed

lemma subseq_filter_mono:
  "(\<And>x. x \<in> set xs \<Longrightarrow> P x \<Longrightarrow> Q x) \<Longrightarrow> subseq (filter P xs) (filter Q xs)"
  by (induction xs) auto

lemmas js_char_simps = js_char_lower_def is_ascii_upper_def char_of_eq_iff

end
