(* ===== verification/Catalog.thy ===== *)
theory Catalog
  imports Prelude
begin

text \<open>
  The seed dataset of \<open>src/app/destinations/page.tsx\<close> (the module constant
  \<open>destinations\<close>, lines 16--139): the record type of one entry, its
  itinerary, the six entries field by field, and the well-formedness the spec
  asks of the catalog (unique ids, non-empty interests), proved of the constant.
  The JavaScript field \<open>id\<close> is \<open>dest_id\<close> and \<open>image\<close> is \<open>dest_image\<close>,
  since \<open>id\<close> and \<open>image\<close> are HOL constants.
\<close>

record itinerary =
  day1 :: js_string
  day2 :: js_string
  day3 :: js_string
  day4 :: js_string
  day5 :: js_string

record destination =
  dest_id :: int
  name :: js_string
  region :: js_string
  interests :: "js_string list"
  description :: js_string
  dest_image :: js_string
  tips :: "js_string list"
  itinerary :: itinerary

definition boulder :: destination where
  "boulder = \<lparr>
    dest_id = 1,
    name = ''Boulder, Colorado'',
    region = ''North America'',
    interests = [''Trail Running'', ''Cycling'', ''Rock Climbing''],
    description = ''A mecca for endurance athletes with high-altitude training opportunities and endless trails.'',
    dest_image = ''/placeholder.svg?height=300&width=400'',
    tips = [
      ''Acclimatize to the altitude before intense training'',
      ''Hydrate more than usual due to the dry climate'',
      ''Check weather conditions as they can change rapidly''],
    itinerary = \<lparr>
      day1 = ''Morning trail run at Chautauqua Park, afternoon recovery at Boulder Creek'',
      day2 = ''Cycling up Flagstaff Mountain, yoga session in the evening'',
      day3 = ''Rock climbing at Eldorado Canyon, recovery swim at Boulder Reservoir'',
      day4 = ''Long run on Boulder Creek Path, sports massage in the afternoon'',
      day5 = ''Mountain biking at Valmont Bike Park, stretching and recovery''\<rparr>\<rparr>"

definition mallorca :: destination where
  "mallorca = \<lparr>
    dest_id = 2,
    name = ''Mallorca, Spain'',
    region = ''Europe'',
    interests = [''Cycling'', ''Swimming'', ''Triathlon''],
    description = ''A cyclist'' @ [apos] @ ''s paradise with smooth roads, challenging climbs, and beautiful Mediterranean scenery.'',
    dest_image = ''/placeholder.svg?height=300&width=400'',
    tips = [
      ''Best cycling season is from February to June and September to November'',
      ''Rent a bike locally to avoid travel hassles'',
      ''Stay hydrated in the Mediterranean heat''],
    itinerary = \<lparr>
      day1 = ''Morning coastal ride to Cap Formentor, afternoon swim at Port de Pollen'' @ [CHR 0xC3, CHR 0xA7] @ ''a'',
      day2 = ''Challenging climb up Sa Calobra, recovery walk along the beach'',
      day3 = ''Easy spin around Alc'' @ [CHR 0xC3, CHR 0xBA] @ ''dia Bay, open water swimming session'',
      day4 = ''Long ride through the Tramuntana mountains, massage therapy'',
      day5 = ''Recovery ride to Art'' @ [CHR 0xC3, CHR 0xA0] @ '', beach relaxation and stretching''\<rparr>\<rparr>"

definition kona :: destination where
  "kona = \<lparr>
    dest_id = 3,
    name = ''Kona, Hawaii'',
    region = ''North America'',
    interests = [''Triathlon'', ''Swimming'', ''Running''],
    description = ''Home of the IRONMAN World Championship with perfect conditions for triathlon training year-round.'',
    dest_image = ''/placeholder.svg?height=300&width=400'',
    tips = [
      ''Train during the same time of day as your race to acclimatize to the heat'',
      ''Practice open water swimming in the bay to get used to ocean conditions'',
      ''Use high SPF sunscreen as the Hawaiian sun is intense''],
    itinerary = \<lparr>
      day1 = ''Swim at Kailua Bay, easy run along Ali'' @ [apos] @ ''i Drive'',
      day2 = ''Bike the Queen K Highway, recovery swim'',
      day3 = ''Run to the Energy Lab, afternoon yoga for recovery'',
      day4 = ''Long ride up to Hawi, light swim in the afternoon'',
      day5 = ''Practice race simulation with transitions, recovery massage''\<rparr>\<rparr>"

definition chamonix :: destination where
  "chamonix = \<lparr>
    dest_id = 4,
    name = ''Chamonix, France'',
    region = ''Europe'',
    interests = [''Trail Running'', ''Skiing'', ''Mountaineering''],
    description = ''A trail runner'' @ [apos] @ ''s dream with access to the iconic Ultra-Trail du Mont-Blanc course and alpine terrain.'',
    dest_image = ''/placeholder.svg?height=300&width=400'',
    tips = [
      ''Prepare for significant elevation changes on trails'',
      ''Carry emergency gear even on short runs due to changing mountain weather'',
      ''Consider hiring a local guide for the more technical routes''],
    itinerary = \<lparr>
      day1 = ''Acclimatization hike to Lac Blanc, stretching session in the evening'',
      day2 = ''Technical trail run on part of the UTMB course, recovery walk in town'',
      day3 = ''Long mountain run to Mer de Glace, ice bath in glacial streams'',
      day4 = ''Vertical kilometer training, massage therapy in the afternoon'',
      day5 = ''Easy trail to Plan de l'' @ [apos] @ ''Aiguille, yoga and recovery''\<rparr>\<rparr>"

definition gold_coast :: destination where
  "gold_coast = \<lparr>
    dest_id = 5,
    name = ''Gold Coast, Australia'',
    region = ''Oceania'',
    interests = [''Swimming'', ''Surfing'', ''Triathlon''],
    description = ''Year-round warm weather with excellent swimming facilities and beautiful beaches for training.'',
    dest_image = ''/placeholder.svg?height=300&width=400'',
    tips = [
      ''Early morning training is best to avoid the midday heat'',
      ''Be aware of strong ocean currents when swimming'',
      ''The Miami Aquatic Centre offers Olympic-standard facilities''],
    itinerary = \<lparr>
      day1 = ''Ocean swim at Burleigh Heads, beach run in the afternoon'',
      day2 = ''Pool session at Miami Aquatic Centre, coastal cycle route'',
      day3 = ''Surf lesson at Surfers Paradise, recovery walk along the esplanade'',
      day4 = ''Triathlon brick session, afternoon stretching and yoga'',
      day5 = ''Long beach run, ocean recovery swim''\<rparr>\<rparr>"

definition iten :: destination where
  "iten = \<lparr>
    dest_id = 6,
    name = ''Iten, Kenya'',
    region = ''Africa'',
    interests = [''Running'', ''Altitude Training''],
    description = ''The '' @ [apos] @ ''Home of Champions'' @ [apos] @ '' where many elite Kenyan runners train at high altitude.'',
    dest_image = ''/placeholder.svg?height=300&width=400'',
    tips = [
      ''Allow 2-3 weeks for proper altitude acclimatization'',
      ''Join local runners for group training sessions'',
      ''Respect local customs and training methods''],
    itinerary = \<lparr>
      day1 = ''Easy acclimatization run, visit to High Altitude Training Centre'',
      day2 = ''Morning fartlek session with local runners, afternoon rest'',
      day3 = ''Long run through tea plantations, recovery walk'',
      day4 = ''Track session at Kamariny Stadium, stretching and mobility work'',
      day5 = ''Easy trail run, visit to local running camp''\<rparr>\<rparr>"

definition destinations :: "destination list" where
  "destinations = [boulder, mallorca, kona, chamonix, gold_coast, iten]"

text \<open>
  Well-formedness of the interests of a catalog (spec section 3): every entry
  has at least one interest, and no entry lists an interest twice (the page
  keys its interest badges by the interest string, line 323).
\<close>

fun interests_wf :: "destination list \<Rightarrow> bool" where
  "interests_wf [] = True"
| "interests_wf (d # ds) = (interests d \<noteq> [] \<and> distinct (interests d) \<and> interests_wf ds)"

lemmas destination_defs = boulder_def mallorca_def kona_def chamonix_def gold_coast_def iten_def

lemma interests_wf_iff: "interests_wf ds \<longleftrightarrow> (\<forall>d \<in> set ds. interests d \<noteq> [] \<and> distinct (interests d))"
  by (induction ds) auto

lemma interests_wf_subseq: "subseq xs ys \<Longrightarrow> interests_wf ys \<Longrightarrow> interests_wf xs"
  by (auto simp: interests_wf_iff dest: list_emb_set)

lemma distinct_map_subseq: "subseq xs ys \<Longrightarrow> distinct (map f ys) \<Longrightarrow> distinct (map f xs)"
  by (induction xs ys rule: list_emb.induct) (auto dest: list_emb_set)

lemma dest_ids_destinations [simp]: "map dest_id destinations = [1, 2, 3, 4, 5, 6]"
  by (simp add: destinations_def destination_defs)

lemma interests_wf_destinations [simp]: "interests_wf destinations"
  by (simp add: destinations_def destination_defs)

end
