(* ===== verification/Query.thy ===== *)
theory Query
  imports Catalog
begin

text \<open>
  The filtering logic of \<open>src/app/destinations/page.tsx\<close>: the three filter
  values (lines 143--145) as a record, the body of \<open>applyFilters\<close>
  (lines 152--174) as three guarded passes applied in the source's order, and
  the selector options \<open>regions\<close> and \<open>interests\<close> (lines 148--149).
  \<open>applyFilters\<close> takes the catalog as a parameter; the page applies it to
  \<open>destinations\<close>.  The abstract specification \<open>matches\<close> is the spec's
  conjunction of the three predicates; the main lemma is that
  \<open>applyFilters\<close> refines it (keeps exactly the matching entries, in order).
\<close>

record filter_state =
  regionFilter :: js_string
  interestFilter :: js_string
  searchQuery :: js_string

definition no_filters :: filter_state where
  "no_filters = \<lparr>regionFilter = [], interestFilter = [], searchQuery = []\<rparr>"

subsection \<open>The passes of applyFilters\<close>

definition region_pass :: "js_string \<Rightarrow> destination list \<Rightarrow> destination list" where
  "region_pass rf results =
     (if js_truthy rf then filter (\<lambda>dest. region dest = rf) results else results)"

definition interest_pass :: "js_string \<Rightarrow> destination list \<Rightarrow> destination list" where
  "interest_pass itf results =
     (if js_truthy itf then filter (\<lambda>dest. arr_includes (interests dest) itf) results else results)"

definition search_hit :: "js_string \<Rightarrow> destination \<Rightarrow> bool" where
  "search_hit query dest \<longleftrightarrow>
     str_includes (toLowerCase (name dest)) query \<or> str_includes (toLowerCase (description dest)) query"

definition search_pass :: "js_string \<Rightarrow> destination list \<Rightarrow> destination list" where
  "search_pass sq results =
     (if js_truthy sq then (let query = toLowerCase sq in filter (search_hit query) results)
      else results)"

definition applyFilters :: "destination list \<Rightarrow> filter_state \<Rightarrow> destination list" where
  "applyFilters catalog f =
     (let results = catalog;
          results = region_pass (regionFilter f) results;
          results = interest_pass (interestFilter f) results;
          results = search_pass (searchQuery f) results
      in results)"

definition regions :: "destination list \<Rightarrow> js_string list" where
  "regions catalog = js_set_from (map region catalog)"

definition interests_of :: "destination list \<Rightarrow> js_string list" where
  "interests_of catalog = js_set_from (concat (map interests catalog))"

subsection \<open>The abstract specification\<close>

text \<open>
  Spec section 4.1: an unset (empty) field imposes nothing; region is exact
  equality, interest is membership, search is a case-insensitive substring
  of the name or of the description.
\<close>

definition matches :: "filter_state \<Rightarrow> destination \<Rightarrow> bool" where
  "matches f d \<longleftrightarrow>
     (regionFilter f = [] \<or> region d = regionFilter f) \<and>
     (interestFilter f = [] \<or> interestFilter f \<in> set (interests d)) \<and>
     (searchQuery f = [] \<or>
        sublist (toLowerCase (searchQuery f)) (toLowerCase (name d)) \<or>
        sublist (toLowerCase (searchQuery f)) (toLowerCase (description d)))"

subsection \<open>Each pass is a filter\<close>

lemma region_pass_filter [filter_simps]:
  "region_pass rf xs = filter (\<lambda>d. rf = [] \<or> region d = rf) xs"
  by (cases rf) (simp_all add: region_pass_def)

lemma interest_pass_filter [filter_simps]:
  "interest_pass itf xs = filter (\<lambda>d. itf = [] \<or> itf \<in> set (interests d)) xs"
  by (cases itf) (simp_all add: interest_pass_def)

lemma search_pass_filter [filter_simps]:
  "search_pass sq xs = filter (\<lambda>d. sq = [] \<or> search_hit (toLowerCase sq) d) xs"
  by (cases sq) (simp_all add: search_pass_def Let_def)

lemma search_hit_sublist:
  "search_hit q d \<longleftrightarrow> sublist q (toLowerCase (name d)) \<or> sublist q (toLowerCase (description d))"
  by (simp add: search_hit_def str_includes_sublist)

lemma applyFilters_passes [filter_simps]:
  "applyFilters catalog f =
     search_pass (searchQuery f) (interest_pass (interestFilter f) (region_pass (regionFilter f) catalog))"
  by (simp add: applyFilters_def)

text \<open>C1: \<open>applyFilters\<close> refines the specification: it keeps exactly the
  entries that match all three predicates, in catalog order.\<close>

theorem applyFilters_refines:
  "applyFilters catalog f = [d \<leftarrow> catalog. matches f d]"
  unfolding applyFilters_passes filter_simps filter_filter
  by (rule filter_cong) (auto simp: matches_def search_hit_sublist)

subsection \<open>Properties of the query\<close>

lemma search_hit_lower [simp]: "search_hit (toLowerCase (toLowerCase q)) d = search_hit (toLowerCase q) d"
  by simp

text \<open>C6: \<open>applyFilters\<close> only restricts the catalog: with no filter set it
  returns the whole catalog in its original order (the state after a reset),
  filtering its result again with the same filters changes nothing, and
  setting any one filter only narrows the result, which is a subsequence of
  the result with that filter unset.\<close>

theorem filter_laws:
  "applyFilters catalog no_filters = catalog \<and>
   applyFilters (applyFilters catalog f) f = applyFilters catalog f \<and>
   subseq (applyFilters catalog f) (applyFilters catalog (f\<lparr>regionFilter := []\<rparr>)) \<and>
   subseq (applyFilters catalog f) (applyFilters catalog (f\<lparr>interestFilter := []\<rparr>)) \<and>
   subseq (applyFilters catalog f) (applyFilters catalog (f\<lparr>searchQuery := []\<rparr>))"
proof (intro conjI)
  show "applyFilters catalog no_filters = catalog"
    by (simp add: filter_simps no_filters_def)
  show "applyFilters (applyFilters catalog f) f = applyFilters catalog f"
    unfolding filter_simps filter_filter by (rule filter_cong) auto
qed (unfold filter_simps filter_filter, auto intro: subseq_filter_mono)

text \<open>C7: the search is case-insensitive: two queries with the same lower-case
  form select the same destinations.\<close>

theorem search_case_insensitive:
  assumes "toLowerCase q1 = toLowerCase q2"
  shows "applyFilters catalog (f\<lparr>searchQuery := q1\<rparr>) = applyFilters catalog (f\<lparr>searchQuery := q2\<rparr>)"
proof -
  have "q1 = [] \<longleftrightarrow> q2 = []"
    by (metis assms toLowerCase_Nil_iff)
  then show ?thesis by (simp add: filter_simps assms)
qed

theorem search_case_insensitive_witness:
  "applyFilters destinations (no_filters\<lparr>searchQuery := ''MALLORCA''\<rparr>) =
   applyFilters destinations (no_filters\<lparr>searchQuery := ''mallorca''\<rparr>)"
  using search_case_insensitive [of "''MALLORCA''" "''mallorca''" destinations no_filters]
  by (simp add: js_char_simps)

text \<open>C9: a non-empty region that no destination has selects nothing.\<close>

theorem unknown_region_empty:
  assumes "regionFilter f \<noteq> []" and "regionFilter f \<notin> set (map region catalog)"
  shows "applyFilters catalog f = []"
  using assms by (auto simp: filter_simps filter_empty_conv image_iff)

theorem unknown_region_empty_witness:
  "applyFilters destinations (no_filters\<lparr>regionFilter := ''Asia''\<rparr>) = []"
  using unknown_region_empty [of "no_filters\<lparr>regionFilter := ''Asia''\<rparr>" destinations]
  by (simp add: no_filters_def destinations_def destination_defs)

text \<open>C10: with only an interest set, a destination is in the result exactly
  when it is in the catalog and lists that interest.\<close>

theorem interest_filter_membership:
  assumes "I \<noteq> []"
  shows "d \<in> set (applyFilters catalog (no_filters\<lparr>interestFilter := I\<rparr>)) \<longleftrightarrow>
         d \<in> set catalog \<and> I \<in> set (interests d)"
  using assms by (simp add: filter_simps no_filters_def)

theorem interest_filter_membership_witness:
  "kona \<in> set (applyFilters destinations (no_filters\<lparr>interestFilter := ''Triathlon''\<rparr>))"
  using interest_filter_membership [of "''Triathlon''" kona destinations]
  by (simp add: destinations_def kona_def)

end
