(* ===== verification/Page.thy ===== *)
theory Page
  imports Query
begin

text \<open>
  The stateful part of \<open>DestinationsPage\<close> (\<open>src/app/destinations/page.tsx\<close>,
  lines 141--198).  Its four \<open>useState\<close> hooks (lines 142--145) are the
  record \<open>page_state\<close>: the three filter values (inherited from
  \<open>filter_state\<close>) and \<open>filteredDestinations\<close>; the field \<open>pending\<close> is the
  browser's timer queue of the callbacks scheduled by \<open>setTimeout(..., 0)\<close>.

  A handler runs in the closure of the render that created it, so the
  \<open>applyFilters\<close> it schedules reads the filter values of that render, not the
  value the handler has just set: the scheduled callback is represented by
  the filter values it captured (\<open>captured_filters\<close> of the state before the
  handler).  React flushes the state updates of a discrete UI event before the
  next event is dispatched, so every event runs against the state left by the
  previous one, and timers with the same delay fire in the order they were
  scheduled (a FIFO queue).  Events and timer firings interleave freely:
  \<open>page_step\<close> takes either; a timer can fire only when one is pending.
\<close>

record page_state = filter_state +
  filteredDestinations :: "destination list"
  pending :: "filter_state list"

definition captured_filters :: "'a filter_state_scheme \<Rightarrow> filter_state" where
  "captured_filters s =
     \<lparr>regionFilter = regionFilter s, interestFilter = interestFilter s, searchQuery = searchQuery s\<rparr>"

definition init_page :: page_state where
  "init_page = \<lparr>regionFilter = [], interestFilter = [], searchQuery = [],
                filteredDestinations = destinations, pending = []\<rparr>"

subsection \<open>Handlers\<close>

definition handleRegionChange :: "js_string \<Rightarrow> page_state \<Rightarrow> page_state" where
  "handleRegionChange value s =
     (let closure = captured_filters s;
          s = s\<lparr>regionFilter := value\<rparr>;
          s = s\<lparr>pending := pending s @ [closure]\<rparr>
      in s)"

definition handleInterestChange :: "js_string \<Rightarrow> page_state \<Rightarrow> page_state" where
  "handleInterestChange value s =
     (let closure = captured_filters s;
          s = s\<lparr>interestFilter := value\<rparr>;
          s = s\<lparr>pending := pending s @ [closure]\<rparr>
      in s)"

definition handleSearchChange :: "js_string \<Rightarrow> page_state \<Rightarrow> page_state" where
  "handleSearchChange value s =
     (let closure = captured_filters s;
          s = s\<lparr>searchQuery := value\<rparr>;
          s = s\<lparr>pending := pending s @ [closure]\<rparr>
      in s)"

definition resetFilters :: "page_state \<Rightarrow> page_state" where
  "resetFilters s =
     s\<lparr>regionFilter := [], interestFilter := [], searchQuery := [],
       filteredDestinations := destinations\<rparr>"

text \<open>The oldest pending callback runs \<open>applyFilters\<close> over the filter values
  it captured and stores the result with \<open>setFilteredDestinations\<close>.\<close>

definition fire_timer :: "page_state \<Rightarrow> page_state option" where
  "fire_timer s =
     (case pending s of
        [] \<Rightarrow> None
      | closure # rest \<Rightarrow>
          Some (s\<lparr>pending := rest, filteredDestinations := applyFilters destinations closure\<rparr>))"

datatype ui_event =
    RegionChange js_string
  | InterestChange js_string
  | SearchChange js_string
  | ResetClick
  | TimerFires

fun page_step :: "page_state \<Rightarrow> ui_event \<Rightarrow> page_state option" where
  "page_step s (RegionChange v) = Some (handleRegionChange v s)"
| "page_step s (InterestChange v) = Some (handleInterestChange v s)"
| "page_step s (SearchChange v) = Some (handleSearchChange v s)"
| "page_step s ResetClick = Some (resetFilters s)"
| "page_step s TimerFires = fire_timer s"

fun is_filter_change :: "ui_event \<Rightarrow> bool" where
  "is_filter_change (RegionChange v) = True"
| "is_filter_change (InterestChange v) = True"
| "is_filter_change (SearchChange v) = True"
| "is_filter_change ResetClick = False"
| "is_filter_change TimerFires = False"

fun run :: "page_state \<Rightarrow> ui_event list \<Rightarrow> page_state option" where
  "run s [] = Some s"
| "run s (e # es) = (case page_step s e of None \<Rightarrow> None | Some t \<Rightarrow> run t es)"

inductive reachable :: "page_state \<Rightarrow> bool" where
  init: "reachable init_page"
| step: "reachable s \<Longrightarrow> page_step s e = Some t \<Longrightarrow> reachable t"

text \<open>The same runs with a ghost history: the filter values the controls
  showed after every step so far.\<close>

inductive reachable_hist :: "page_state \<Rightarrow> filter_state list \<Rightarrow> bool" where
  init: "reachable_hist init_page [no_filters]"
| step: "reachable_hist s h \<Longrightarrow> page_step s e = Some t \<Longrightarrow> reachable_hist t (h @ [captured_filters t])"

text \<open>Letting the browser run every pending callback.\<close>

function drain :: "page_state \<Rightarrow> page_state" where
  "drain s = (case fire_timer s of None \<Rightarrow> s | Some t \<Rightarrow> drain t)"
  by pat_completeness auto

lemma fire_timer_pending: "fire_timer s = Some t \<Longrightarrow> pending t = tl (pending s) \<and> pending s \<noteq> []"
  by (auto simp: fire_timer_def split: list.splits)

termination drain
  by (relation "measure (\<lambda>s. length (pending s))") (auto dest: fire_timer_pending)

declare drain.simps [simp del]

subsection \<open>Effects of one step\<close>

lemma captured_filters_simps [simp]:
  "captured_filters (s\<lparr>pending := p\<rparr>) = captured_filters s"
  "captured_filters (s\<lparr>filteredDestinations := ds\<rparr>) = captured_filters s"
  "captured_filters (init_page) = no_filters"
  by (simp_all add: captured_filters_def init_page_def no_filters_def)

lemma init_page_fields [simp]:
  "pending init_page = []" "filteredDestinations init_page = destinations"
  by (simp_all add: init_page_def)

lemma handler_display [simp]:
  "filteredDestinations (handleRegionChange v s) = filteredDestinations s"
  "filteredDestinations (handleInterestChange v s) = filteredDestinations s"
  "filteredDestinations (handleSearchChange v s) = filteredDestinations s"
  by (simp_all add: handleRegionChange_def handleInterestChange_def handleSearchChange_def Let_def)

lemma handleRegionChange_pending [simp]:
  "pending (handleRegionChange v s) = pending s @ [captured_filters s]"
  by (simp add: handleRegionChange_def)

lemma handleInterestChange_pending [simp]:
  "pending (handleInterestChange v s) = pending s @ [captured_filters s]"
  by (simp add: handleInterestChange_def)

lemma handleSearchChange_pending [simp]:
  "pending (handleSearchChange v s) = pending s @ [captured_filters s]"
  by (simp add: handleSearchChange_def)

lemma handler_filters [simp]:
  "captured_filters (handleRegionChange v s) = (captured_filters s)\<lparr>regionFilter := v\<rparr>"
  "captured_filters (handleInterestChange v s) = (captured_filters s)\<lparr>interestFilter := v\<rparr>"
  "captured_filters (handleSearchChange v s) = (captured_filters s)\<lparr>searchQuery := v\<rparr>"
  by (simp_all add: handleRegionChange_def handleInterestChange_def handleSearchChange_def
      captured_filters_def Let_def)

lemma reset_display [simp]:
  "filteredDestinations (resetFilters s) = destinations"
  "captured_filters (resetFilters s) = no_filters"
  by (simp_all add: resetFilters_def captured_filters_def no_filters_def)

lemma reset_pending [simp]: "pending (resetFilters s) = pending s"
  by (simp add: resetFilters_def)

lemma fire_timer_Cons [simp]:
  "pending s = c # cs \<Longrightarrow>
     fire_timer s = Some (s\<lparr>pending := cs, filteredDestinations := applyFilters destinations c\<rparr>)"
  by (simp add: fire_timer_def)

lemma fire_timer_Nil [simp]: "pending s = [] \<Longrightarrow> fire_timer s = None"
  by (simp add: fire_timer_def)

lemma change_step_effects:
  assumes "is_filter_change e" and "page_step s e = Some t"
  shows "filteredDestinations t = filteredDestinations s \<and> pending t = pending s @ [captured_filters s]"
  using assms by (cases e) auto

subsection \<open>Draining the timer queue\<close>

lemma drain_Nil [simp]: "pending s = [] \<Longrightarrow> drain s = s"
  by (simp add: drain.simps)

lemma drain_Cons [simp]:
  "pending s = c # cs \<Longrightarrow>
     drain s = drain (s\<lparr>pending := cs, filteredDestinations := applyFilters destinations c\<rparr>)"
  by (simp add: drain.simps [of s])

lemma drain_effects:
  "pending (drain s) = [] \<and>
   captured_filters (drain s) = captured_filters s \<and>
   filteredDestinations (drain s) =
     (if pending s = [] then filteredDestinations s else applyFilters destinations (last (pending s)))"
proof (induction s rule: drain.induct)
  case (1 s)
  show ?case
  proof (cases "pending s")
    case Nil
    then show ?thesis by simp
  next
    case (Cons c cs)
    with "1.IH" show ?thesis by (simp add: fire_timer_def)
  qed
qed

lemma run_append:
  "run s (xs @ ys) = (case run s xs of None \<Rightarrow> None | Some t \<Rightarrow> run t ys)"
  by (induction s xs rule: run.induct) (auto split: option.splits)

lemma run_reachable: "reachable s \<Longrightarrow> run s es = Some t \<Longrightarrow> reachable t"
proof (induction es arbitrary: s)
  case Nil
  then show ?case by simp
next
  case (Cons e es)
  then obtain u where "page_step s e = Some u" and "run u es = Some t"
    by (auto split: option.splits)
  with Cons show ?case by (blast intro: reachable.step)
qed

subsection \<open>The invariant: the display is a query result\<close>

lemma page_step_display_query:
  assumes "filteredDestinations s = applyFilters destinations f" and "page_step s e = Some t"
  shows "\<exists>g. filteredDestinations t = applyFilters destinations g"
proof (cases e)
  case ResetClick
  with assms(2) have "filteredDestinations t = applyFilters destinations no_filters"
    by (auto simp: filter_simps no_filters_def)
  then show ?thesis ..
next
  case TimerFires
  with assms(2) show ?thesis
    by (auto simp: fire_timer_def split: list.splits)
qed (use assms in auto)

lemma reachable_display_query:
  "reachable s \<Longrightarrow> \<exists>f. filteredDestinations s = applyFilters destinations f"
proof (induction rule: reachable.induct)
  case init
  have "filteredDestinations init_page = applyFilters destinations no_filters"
    by (simp add: init_page_def filter_simps no_filters_def)
  then show ?case ..
next
  case (step s e t)
  then show ?case by (blast intro: page_step_display_query)
qed

lemma reachable_hist_iff: "reachable s \<longleftrightarrow> (\<exists>h. reachable_hist s h)"
proof
  assume "reachable s"
  then show "\<exists>h. reachable_hist s h"
    by induction (blast intro: reachable_hist.intros)+
next
  assume "\<exists>h. reachable_hist s h"
  then obtain h where "reachable_hist s h" ..
  then show "reachable s"
    by induction (blast intro: reachable.intros)+
qed

lemma page_step_history:
  assumes "filteredDestinations s \<in> applyFilters destinations ` set h"
    and "set (pending s) \<subseteq> set h" and "captured_filters s \<in> set h"
    and "page_step s e = Some t"
  shows "filteredDestinations t \<in> applyFilters destinations ` set (h @ [captured_filters t]) \<and>
         set (pending t) \<subseteq> set (h @ [captured_filters t])"
proof (cases e)
  case ResetClick
  with assms(4) have "t = resetFilters s" by simp
  moreover have "destinations = applyFilters destinations no_filters"
    by (simp add: filter_simps no_filters_def)
  ultimately show ?thesis using assms(2) by auto
next
  case TimerFires
  with assms(4) obtain c cs where "pending s = c # cs"
    and "t = s\<lparr>pending := cs, filteredDestinations := applyFilters destinations c\<rparr>"
    by (auto simp: fire_timer_def split: list.splits)
  with assms(2) show ?thesis by auto
qed (use assms in auto)

lemma reachable_hist_inv:
  "reachable_hist s h \<Longrightarrow>
     filteredDestinations s \<in> applyFilters destinations ` set h \<and>
     set (pending s) \<subseteq> set h \<and> captured_filters s \<in> set h"
proof (induction rule: reachable_hist.induct)
  case init
  have "filteredDestinations init_page = applyFilters destinations no_filters"
    by (simp add: init_page_def filter_simps no_filters_def)
  then show ?case by (simp add: init_page_def captured_filters_def no_filters_def)
next
  case (step s h e t)
  then show ?case using page_step_history [of s h e t] by simp
qed

lemma applyFilters_subseq [simp]: "subseq (applyFilters catalog f) catalog"
  by (simp add: filter_simps)

lemma run_replicate_timers:
  "length (pending s) = n \<Longrightarrow> run s (replicate n TimerFires) = Some (drain s)"
proof (induction n arbitrary: s)
  case 0
  then show ?case by simp
next
  case (Suc n)
  then obtain c cs where p: "pending s = c # cs" and "length cs = n"
    by (cases "pending s") auto
  let ?t = "s\<lparr>pending := cs, filteredDestinations := applyFilters destinations c\<rparr>"
  have "run ?t (replicate n TimerFires) = Some (drain ?t)"
    using Suc.IH \<open>length cs = n\<close> by simp
  with p show ?case by simp
qed

subsection \<open>Properties of the page\<close>

text \<open>C2: after a filter change and once the browser has run the pending
  callbacks, the page shows the query of the filter values from before the
  change, while the controls show the new values: the display lags one change
  behind (the scheduled \<open>applyFilters\<close> is the stale closure).\<close>

theorem settled_display_lags:
  assumes "is_filter_change e" and "page_step s e = Some t"
  shows "filteredDestinations (drain t) = applyFilters destinations (captured_filters s) \<and>
         captured_filters (drain t) = captured_filters t"
proof -
  from change_step_effects [OF assms] have "pending t = pending s @ [captured_filters s]"
    by simp
  then show ?thesis using drain_effects [of t] by simp
qed

theorem settled_display_lags_witness:
  "filteredDestinations (drain (handleRegionChange ''Europe'' init_page)) =
     applyFilters destinations (captured_filters init_page) \<and>
   captured_filters (drain (handleRegionChange ''Europe'' init_page)) =
     captured_filters (handleRegionChange ''Europe'' init_page)"
  using settled_display_lags [of "RegionChange ''Europe''" init_page "handleRegionChange ''Europe'' init_page"]
  by simp

text \<open>C3: a reachable, settled state (no callback pending) whose region control
  shows \<open>Europe\<close> while the page lists all six destinations, although the
  query of the shown filters is Mallorca and Chamonix only.\<close>

theorem stale_display_reachable:
  "\<exists>s. reachable s \<and> pending s = [] \<and> regionFilter s = ''Europe'' \<and>
       filteredDestinations s = destinations \<and>
       applyFilters destinations (captured_filters s) = [mallorca, chamonix]"
proof (intro exI conjI)
  let ?s = "init_page\<lparr>regionFilter := ''Europe''\<rparr>"
  have "run init_page [RegionChange ''Europe'', TimerFires] = Some ?s"
    by (simp add: handleRegionChange_def init_page_def fire_timer_def filter_simps no_filters_def captured_filters_def)
  then show "reachable ?s" by (rule run_reachable [OF reachable.init])
  show "applyFilters destinations (captured_filters ?s) = [mallorca, chamonix]"
    by (simp add: captured_filters_def init_page_def filter_simps destinations_def destination_defs)
qed (simp_all add: init_page_def)

text \<open>C4: in every reachable state the page lists an order-preserving
  selection of the catalog with no destination twice (no two cards share the
  React key \<open>destination.id\<close>).\<close>

theorem reachable_display_selection:
  assumes "reachable s"
  shows "subseq (filteredDestinations s) destinations \<and> distinct (map dest_id (filteredDestinations s))"
proof -
  obtain f where f: "filteredDestinations s = applyFilters destinations f"
    using reachable_display_query [OF assms] by blast
  then have sub: "subseq (filteredDestinations s) destinations" by simp
  moreover have "distinct (map dest_id destinations)" by simp
  ultimately show ?thesis by (blast intro: distinct_map_subseq)
qed

theorem reachable_display_selection_witness:
  "subseq (filteredDestinations init_page) destinations \<and>
   distinct (map dest_id (filteredDestinations init_page))"
  using reachable_display_selection [OF reachable.init] .

text \<open>C13: choosing the \<open>All Regions\<close> option (value \<open>all\<close>, line 259)
  sets the region filter to the string \<open>all\<close>, which no destination has:
  once the next change settles, the page lists nothing.\<close>

theorem all_regions_selects_nothing:
  "filteredDestinations (drain (handleInterestChange i (handleRegionChange ''all'' s))) = []"
proof -
  let ?t = "handleInterestChange i (handleRegionChange ''all'' s)"
  have "pending ?t = pending s @ [captured_filters s, (captured_filters s)\<lparr>regionFilter := ''all''\<rparr>]"
    by simp
  then have "filteredDestinations (drain ?t) =
      applyFilters destinations ((captured_filters s)\<lparr>regionFilter := ''all''\<rparr>)"
    using drain_effects [of ?t] by simp
  also have "\<dots> = []"
    by (simp add: filter_simps destinations_def destination_defs)
  finally show ?thesis .
qed

text \<open>C17: the page never shows a list that is not the query of a filter
  state its controls actually held at some point of the run (possibly an
  earlier one).\<close>

theorem display_from_history:
  assumes "reachable_hist s h"
  shows "\<exists>f \<in> set h. filteredDestinations s = applyFilters destinations f"
  using reachable_hist_inv [OF assms] by auto

theorem display_from_history_witness:
  "\<exists>f \<in> set [no_filters]. filteredDestinations init_page = applyFilters destinations f"
  using display_from_history [OF reachable_hist.init] .
end
