(* ===== verification/Schedule.thy ===== *)
theory Schedule
  imports Page
begin

text \<open>
  Runs of \<open>DestinationsPage\<close> under the usual schedule, in which the browser
  runs the callback a change scheduled before the next UI event arrives.
  \<open>change_filters\<close> is what each event does to the three filter values (the
  \<open>set...Filter\<close> calls of the handlers, lines 177--198); \<open>apply_changes\<close>
  folds it over a list of events; \<open>sync\<close> interleaves a list of events with
  one timer firing after each.  The main lemma states the one-change lag of
  the display for a whole list of changes.
\<close>

fun change_filters :: "ui_event \<Rightarrow> filter_state \<Rightarrow> filter_state" where
  "change_filters (RegionChange v) f = f\<lparr>regionFilter := v\<rparr>"
| "change_filters (InterestChange v) f = f\<lparr>interestFilter := v\<rparr>"
| "change_filters (SearchChange v) f = f\<lparr>searchQuery := v\<rparr>"
| "change_filters ResetClick f = no_filters"
| "change_filters TimerFires f = f"

definition apply_changes :: "filter_state \<Rightarrow> ui_event list \<Rightarrow> filter_state" where
  "apply_changes f es = foldl (\<lambda>g e. change_filters e g) f es"

fun sync :: "ui_event list \<Rightarrow> ui_event list" where
  "sync [] = []"
| "sync (e # es) = e # TimerFires # sync es"

lemma apply_changes_simps [simp]:
  "apply_changes f [] = f"
  "apply_changes f (e # es) = apply_changes (change_filters e f) es"
  "apply_changes f (es @ [e]) = change_filters e (apply_changes f es)"
  by (simp_all add: apply_changes_def)

lemma page_step_filters:
  "page_step s e = Some t \<Longrightarrow> captured_filters t = change_filters e (captured_filters s)"
  by (cases e) (auto simp: fire_timer_def split: list.splits)

lemma run_sync:
  assumes "pending s = []" and "list_all is_filter_change es"
  shows "\<exists>t. run s (sync es) = Some t \<and> pending t = [] \<and>
           captured_filters t = apply_changes (captured_filters s) es \<and>
           filteredDestinations t =
             (if es = [] then filteredDestinations s
              else applyFilters destinations (apply_changes (captured_filters s) (butlast es)))"
  using assms
proof (induction es arbitrary: s)
  case Nil
  then show ?case by simp
next
  case (Cons e es)
  then obtain s1 where s1: "page_step s e = Some s1"
    by (cases e) auto
  with Cons.prems have p1: "pending s1 = [captured_filters s]"
    using change_step_effects [of e s s1] by simp
  let ?s2 = "s1\<lparr>pending := [], filteredDestinations := applyFilters destinations (captured_filters s)\<rparr>"
  have f2: "fire_timer s1 = Some ?s2" using p1 by simp
  have c2: "captured_filters ?s2 = change_filters e (captured_filters s)"
    using page_step_filters [OF s1] by simp
  from Cons.IH [of ?s2] Cons.prems obtain t where
    t: "run ?s2 (sync es) = Some t" "pending t = []"
       "captured_filters t = apply_changes (captured_filters ?s2) es"
       "filteredDestinations t =
          (if es = [] then filteredDestinations ?s2
           else applyFilters destinations (apply_changes (captured_filters ?s2) (butlast es)))"
    by auto
  have "run s (sync (e # es)) = Some t" using s1 f2 t(1) by simp
  with t c2 show ?case by auto
qed

text \<open>C18: under the usual schedule, after any list of filter changes from
  a settled state, the page shows the query of the filter values before the
  last change, while the controls show the values after it.\<close>

theorem sync_display_lags:
  assumes "pending s = []" and "list_all is_filter_change (es @ [e])"
  shows "\<exists>t. run s (sync (es @ [e])) = Some t \<and> pending t = [] \<and>
           captured_filters t = apply_changes (captured_filters s) (es @ [e]) \<and>
           filteredDestinations t = applyFilters destinations (apply_changes (captured_filters s) es)"
  using run_sync [OF assms] by simp

theorem sync_display_lags_witness:
  "\<exists>t. run init_page (sync ([RegionChange ''Europe''] @ [InterestChange ''Cycling''])) = Some t \<and>
       pending t = [] \<and>
       captured_filters t = apply_changes no_filters ([RegionChange ''Europe''] @ [InterestChange ''Cycling'']) \<and>
       filteredDestinations t = applyFilters destinations (apply_changes no_filters [RegionChange ''Europe''])"
  using sync_display_lags [of init_page "[RegionChange ''Europe'']" "InterestChange ''Cycling''"]
  by simp

end
