(* ===== verification/View.thy ===== *)
theory View
  imports Query
begin

text \<open>
  What \<open>DestinationsPage\<close> renders from its state
  (\<open>src/app/destinations/page.tsx\<close>): the options of the two selectors
  (lines 254--282) as (value, label) pairs, and the results area (lines
  292--379) as a view value: the empty-result message, or one card per
  destination with the fields the JSX reads.  React keys are part of the
  model: a card is keyed by \<open>destination.id\<close> (line 303), a badge by the
  interest string (line 323), a tip by its index (line 344), a select item by
  its value (lines 261 and 277).
\<close>

record card =
  card_key :: int
  image_src :: js_string
  image_alt :: js_string
  card_title :: js_string
  card_region :: js_string
  badges :: "js_string list"
  card_text :: js_string
  tip_items :: "(nat \<times> js_string) list"
  itinerary_rows :: "(js_string \<times> js_string) list"

datatype results_view =
    NoDestinationsFound
  | CardGrid "card list"

definition render_card :: "destination \<Rightarrow> card" where
  "render_card destination =
     \<lparr>card_key = dest_id destination,
      image_src = (if js_truthy (dest_image destination) then dest_image destination
                   else ''/placeholder.svg''),
      image_alt = name destination,
      card_title = name destination,
      card_region = region destination,
      badges = interests destination,
      card_text = description destination,
      tip_items = enumerate 0 (tips destination),
      itinerary_rows =
        [(''Day 1:'', day1 (itinerary destination)), (''Day 2:'', day2 (itinerary destination)),
         (''Day 3:'', day3 (itinerary destination)), (''Day 4:'', day4 (itinerary destination)),
         (''Day 5:'', day5 (itinerary destination))]\<rparr>"

definition render_results :: "destination list \<Rightarrow> results_view" where
  "render_results filteredDestinations =
     (if length filteredDestinations = 0 then NoDestinationsFound
      else CardGrid (map render_card filteredDestinations))"

definition region_select_items :: "destination list \<Rightarrow> (js_string \<times> js_string) list" where
  "region_select_items catalog = (''all'', ''All Regions'') # map (\<lambda>r. (r, r)) (regions catalog)"

definition interest_select_items :: "destination list \<Rightarrow> (js_string \<times> js_string) list" where
  "interest_select_items catalog =
     (''all'', ''All Interests'') # map (\<lambda>i. (i, i)) (interests_of catalog)"

text \<open>The React keys of a grid are unique when no key repeats among the cards
  and no badge key repeats within a card.\<close>

fun view_keys_unique :: "results_view \<Rightarrow> bool" where
  "view_keys_unique NoDestinationsFound = True"
| "view_keys_unique (CardGrid cs) = (distinct (map card_key cs) \<and> list_all (\<lambda>c. distinct (badges c)) cs)"

lemma distinct_js_set_from [simp]: "distinct (js_set_from xs)"
  by (simp add: js_set_from_def foldl_js_set_add)

lemma set_js_set_from [simp]: "set (js_set_from xs) = set xs"
  by (simp add: js_set_from_def foldl_js_set_add)

lemma render_card_simps [simp]:
  "card_key (render_card d) = dest_id d"
  "badges (render_card d) = interests d"
  by (simp_all add: render_card_def)

lemma render_results_keys:
  assumes "distinct (map dest_id ds)" and "interests_wf ds"
  shows "view_keys_unique (render_results ds)"
  using assms by (auto simp: render_results_def comp_def interests_wf_iff list_all_iff)

text \<open>C15: the values of the region options are distinct (so are the React
  keys and Radix item values) whenever no catalog region is literally
  \<open>all\<close>; the same for the interest options.\<close>

theorem select_items_distinct:
  assumes "''all'' \<notin> set (map region catalog)"
    and "''all'' \<notin> set (concat (map interests catalog))"
  shows "distinct (map fst (region_select_items catalog)) \<and>
         distinct (map fst (interest_select_items catalog))"
  using assms by (simp add: region_select_items_def interest_select_items_def regions_def
      interests_of_def comp_def)

theorem select_items_distinct_witness:
  "distinct (map fst (region_select_items destinations)) \<and>
   distinct (map fst (interest_select_items destinations))"
  using select_items_distinct [of destinations]
  by (simp add: destinations_def destination_defs)

end
