(* ===== verification/Controls.thy ===== *)
theory Controls
  imports Schedule View
begin

text \<open>
  The filter controls of \<open>DestinationsPage\<close> as the user sees and drives
  them (\<open>src/app/destinations/page.tsx\<close>, lines 243--289).  The two
  \<open>Select\<close>s are controlled components: \<open>value={regionFilter}\<close> and
  \<open>value={interestFilter}\<close>.  The \<open>Select\<close> component itself
  (\<open>@/components/ui/select\<close>) is not part of the repository; it is modelled
  by \<open>select_label\<close> from its documented behaviour: the empty value shows the
  placeholder, any other value the label of the item with that value.  The UI
  can only deliver a value of one of the items to \<open>onValueChange\<close>, while the
  search \<open>Input\<close> delivers any text: \<open>ui_event_ok\<close> says which values the
  page can receive, and \<open>ui_reachable\<close> the states reachable with them.
  That set is an over-approximation, sound for invariants.  Exactly, a
  \<open>Select\<close> calls \<open>onValueChange\<close> and the \<open>Input\<close> fires \<open>onChange\<close> only
  when the value changes (\<open>changes_control\<close>), while the Reset buttons fire
  on every click: \<open>ui_step\<close> and \<open>ui_run\<close> deliver only those events, and
  are used where a claim asserts that a run exists.
\<close>

definition select_label :: "(js_string \<times> js_string) list \<Rightarrow> js_string \<Rightarrow> js_string \<Rightarrow> js_string" where
  "select_label items value placeholder =
     (if value = [] then placeholder
      else (case map_of items value of Some label \<Rightarrow> label | None \<Rightarrow> []))"

definition region_control :: "'a filter_state_scheme \<Rightarrow> js_string" where
  "region_control s = select_label (region_select_items destinations) (regionFilter s) ''All Regions''"

definition interest_control :: "'a filter_state_scheme \<Rightarrow> js_string" where
  "interest_control s =
     select_label (interest_select_items destinations) (interestFilter s) ''All Interests''"

fun ui_event_ok :: "ui_event \<Rightarrow> bool" where
  "ui_event_ok (RegionChange v) = (v \<in> set (map fst (region_select_items destinations)))"
| "ui_event_ok (InterestChange v) = (v \<in> set (map fst (interest_select_items destinations)))"
| "ui_event_ok (SearchChange v) = True"
| "ui_event_ok ResetClick = True"
| "ui_event_ok TimerFires = True"

inductive ui_reachable :: "page_state \<Rightarrow> bool" where
  init: "ui_reachable init_page"
| step: "ui_reachable s \<Longrightarrow> ui_event_ok e \<Longrightarrow> page_step s e = Some t \<Longrightarrow> ui_reachable t"

text \<open>The values a filter can take through the UI: unset, or an option value.\<close>

definition filters_in_domain :: "filter_state \<Rightarrow> bool" where
  "filters_in_domain f \<longleftrightarrow>
     regionFilter f \<in> set ([] # map fst (region_select_items destinations)) \<and>
     interestFilter f \<in> set ([] # map fst (interest_select_items destinations))"

text \<open>An event changes its control: a new item value, a new text; a
  Reset click or a timer always happens.\<close>

fun changes_control :: "filter_state \<Rightarrow> ui_event \<Rightarrow> bool" where
  "changes_control f (RegionChange v) = (v \<noteq> regionFilter f)"
| "changes_control f (InterestChange v) = (v \<noteq> interestFilter f)"
| "changes_control f (SearchChange v) = (v \<noteq> searchQuery f)"
| "changes_control f ResetClick = True"
| "changes_control f TimerFires = True"

definition ui_step :: "page_state \<Rightarrow> ui_event \<Rightarrow> page_state option" where
  "ui_step s e =
     (if ui_event_ok e \<and> changes_control (captured_filters s) e then page_step s e else None)"

fun ui_run :: "page_state \<Rightarrow> ui_event list \<Rightarrow> page_state option" where
  "ui_run s [] = Some s"
| "ui_run s (e # es) = (case ui_step s e of None \<Rightarrow> None | Some t \<Rightarrow> ui_run t es)"

text \<open>A list of changes each delivered in the state the previous ones leave.\<close>

fun delivered_changes :: "filter_state \<Rightarrow> ui_event list \<Rightarrow> bool" where
  "delivered_changes f [] = True"
| "delivered_changes f (e # es) =
     (ui_event_ok e \<and> changes_control f e \<and> delivered_changes (change_filters e f) es)"

text \<open>From cleared filters: choose the region, the interest and type the
  search of \<open>f\<close>, skipping those left unset.\<close>

definition set_controls :: "filter_state \<Rightarrow> ui_event list" where
  "set_controls f =
     (if regionFilter f = [] then [] else [RegionChange (regionFilter f)]) @
     (if interestFilter f = [] then [] else [InterestChange (interestFilter f)]) @
     (if searchQuery f = [] then [] else [SearchChange (searchQuery f)])"

subsection \<open>Lemmas\<close>

lemma select_items_values:
  "map fst (region_select_items destinations) = [''all'', ''North America'', ''Europe'', ''Oceania'', ''Africa'']"
  "map fst (interest_select_items destinations) =
     [''all'', ''Trail Running'', ''Cycling'', ''Rock Climbing'', ''Swimming'', ''Triathlon'',
      ''Running'', ''Skiing'', ''Mountaineering'', ''Surfing'', ''Altitude Training'']"
  by (simp_all add: region_select_items_def interest_select_items_def regions_def interests_of_def
      js_set_from_def js_set_add_def destinations_def destination_defs)

lemma select_label_item:
  assumes "distinct (map fst items)" and "(v, label) \<in> set items" and "v \<noteq> []"
  shows "select_label items v placeholder = label"
  using assms by (simp add: select_label_def map_of_is_SomeI)

lemma change_filters_domain:
  "ui_event_ok e \<Longrightarrow> filters_in_domain f \<Longrightarrow> filters_in_domain (change_filters e f)"
  by (cases e) (auto simp: filters_in_domain_def no_filters_def)

lemma ui_run_append:
  "ui_run s (xs @ ys) = (case ui_run s xs of None \<Rightarrow> None | Some t \<Rightarrow> ui_run t ys)"
  by (induction s xs rule: ui_run.induct) (auto split: option.splits)

text \<open>Timers and Reset clicks are always delivered.\<close>

lemma ui_run_browser: "list_all (\<lambda>e. e = TimerFires \<or> e = ResetClick) es \<Longrightarrow> ui_run s es = run s es"
  by (induction es arbitrary: s) (auto simp: ui_step_def split: option.splits)

lemma delivered_changes_append:
  "delivered_changes f (xs @ ys) \<longleftrightarrow> delivered_changes f xs \<and> delivered_changes (apply_changes f xs) ys"
  by (induction xs arbitrary: f) (auto simp: apply_changes_def)

lemma ui_run_sync:
  assumes "pending s = []" and "list_all is_filter_change es"
    and "delivered_changes (captured_filters s) es"
  shows "ui_run s (sync es) = run s (sync es)"
  using assms
proof (induction es arbitrary: s)
  case Nil
  then show ?case by simp
next
  case (Cons e es)
  then obtain s1 where s1: "page_step s e = Some s1"
    by (cases e) auto
  with Cons.prems have p1: "pending s1 = [captured_filters s]"
    using change_step_effects [of e s s1] by simp
  let ?s2 = "s1\<lparr>pending := [], filteredDestinations := applyFilters destinations (captured_filters s)\<rparr>"
  have f2: "fire_timer s1 = Some ?s2" using p1 by simp
  have c2: "captured_filters ?s2 = change_filters e (captured_filters s)"
    using page_step_filters [OF s1] by simp
  have u1: "ui_step s e = Some s1" using s1 Cons.prems(3) by (simp add: ui_step_def)
  have u2: "ui_step s1 TimerFires = Some ?s2" using f2 by (simp add: ui_step_def)
  have "ui_run ?s2 (sync es) = run ?s2 (sync es)"
    using Cons.IH [of ?s2] Cons.prems c2 by simp
  then show ?case using s1 f2 u1 u2 by simp
qed

lemma set_controls_changes: "list_all is_filter_change (set_controls f)"
  by (simp add: set_controls_def)

lemma set_controls_reach: "apply_changes no_filters (set_controls f) = f"
  by (cases f) (simp add: set_controls_def no_filters_def apply_changes_def)

lemma set_controls_delivered:
  "filters_in_domain f \<Longrightarrow> delivered_changes no_filters (set_controls f)"
  by (cases f) (auto simp: set_controls_def filters_in_domain_def no_filters_def delivered_changes_append
      apply_changes_def)

text \<open>From any state, the timers and a Reset click bring the page to cleared
  filters with nothing pending; from there every delivered list of changes
  runs under the usual schedule as \<open>run_sync\<close> describes.\<close>

lemma ui_run_from_reset:
  assumes "list_all is_filter_change es" and "delivered_changes no_filters es"
  shows "\<exists>t. ui_run s (replicate (length (pending s)) TimerFires @ [ResetClick] @ sync es) = Some t \<and>
           pending t = [] \<and> captured_filters t = apply_changes no_filters es \<and>
           filteredDestinations t =
             (if es = [] then destinations else applyFilters destinations (apply_changes no_filters (butlast es)))"
proof -
  let ?r = "resetFilters (drain s)"
  have r: "ui_run s (replicate (length (pending s)) TimerFires @ [ResetClick]) = Some ?r"
    using ui_run_browser [of "replicate (length (pending s)) TimerFires @ [ResetClick]" s]
    by (simp add: run_append run_replicate_timers list_all_iff)
  have p: "pending ?r = []" and c: "captured_filters ?r = no_filters"
    and d: "filteredDestinations ?r = destinations"
    by (simp_all add: drain_effects resetFilters_def captured_filters_def no_filters_def)
  have "ui_run ?r (sync es) = run ?r (sync es)"
    using ui_run_sync [OF p assms(1)] assms(2) c by simp
  then show ?thesis
    using run_sync [OF p assms(1)] r c d ui_run_append [of s "replicate (length (pending s)) TimerFires @ [ResetClick]"]
    by auto
qed

text \<open>C19: through the UI, the filter values (and those captured by the
  pending callbacks) are always unset or the value of one of the options.\<close>

theorem ui_filters_in_domain:
  assumes "ui_reachable s"
  shows "filters_in_domain (captured_filters s) \<and> list_all filters_in_domain (pending s)"
  using assms
proof (induction rule: ui_reachable.induct)
  case init
  then show ?case by (simp add: filters_in_domain_def no_filters_def)
next
  case (step s e t)
  have c: "filters_in_domain (captured_filters t)"
    using page_step_filters [OF step.hyps(3)] change_filters_domain [OF step.hyps(2)] step.IH by simp
  have p: "list_all filters_in_domain (pending t)"
  proof (cases e)
    case TimerFires
    with step.hyps(3) step.IH show ?thesis
      by (auto simp: fire_timer_def split: list.splits)
  qed (use step in \<open>auto simp: resetFilters_def\<close>)
  from c p show ?case ..
qed

theorem ui_filters_in_domain_witness:
  "filters_in_domain (captured_filters init_page) \<and> list_all filters_in_domain (pending init_page)"
  using ui_filters_in_domain [OF ui_reachable.init] .

text \<open>C20: choosing an option and reading the control back gives the label
  of the option chosen, for both selectors.\<close>

theorem control_roundtrip:
  assumes "(v, l) \<in> set (region_select_items destinations)"
    and "(w, m) \<in> set (interest_select_items destinations)"
  shows "region_control (handleRegionChange v s) = l \<and> interest_control (handleInterestChange w s) = m"
proof -
  have "v \<in> set (map fst (region_select_items destinations))"
    using assms(1) by force
  then have "v \<noteq> []" by (auto simp: select_items_values)
  moreover have "w \<in> set (map fst (interest_select_items destinations))"
    using assms(2) by force
  then have "w \<noteq> []" by (auto simp: select_items_values)
  ultimately show ?thesis
    using assms by (simp add: region_control_def interest_control_def handleRegionChange_def
        handleInterestChange_def Let_def select_label_item select_items_values)
qed

theorem control_roundtrip_witness:
  "region_control (handleRegionChange ''Europe'' init_page) = ''Europe'' \<and>
   interest_control (handleInterestChange ''Cycling'' init_page) = ''Cycling''"
proof -
  have "(''Europe'', ''Europe'') \<in> set (region_select_items destinations)"
    and "(''Cycling'', ''Cycling'') \<in> set (interest_select_items destinations)"
    by (simp_all add: region_select_items_def interest_select_items_def regions_def interests_of_def
        js_set_from_def js_set_add_def destinations_def destination_defs)
  then show ?thesis by (rule control_roundtrip)
qed

text \<open>C21: from any state, with only events the controls really deliver
  (each Select choice and each edit of the search box changes its value),
  the user can set the controls to any combination of option values and
  search text, and can bring the page to show the result of any such
  combination, in both cases with no callback pending.  The two need
  different runs: the list shown is always one change behind the controls.\<close>

theorem controls_and_results_reachable:
  assumes "filters_in_domain f"
  shows "(\<exists>es t. ui_run s es = Some t \<and> pending t = [] \<and> captured_filters t = f) \<and>
         (\<exists>es t. ui_run s es = Some t \<and> pending t = [] \<and>
            filteredDestinations t = applyFilters destinations f)"
proof
  show "\<exists>es t. ui_run s es = Some t \<and> pending t = [] \<and> captured_filters t = f"
    using ui_run_from_reset [OF set_controls_changes set_controls_delivered [OF assms], of s]
    by (auto simp: set_controls_reach)
next
  let ?es = "set_controls f @ [SearchChange (searchQuery f @ '' '')]"
  have "list_all is_filter_change ?es"
    using set_controls_changes [of f] by simp
  moreover have "delivered_changes no_filters ?es"
    using set_controls_delivered [OF assms]
    by (simp add: delivered_changes_append set_controls_reach)
  ultimately show "\<exists>es t. ui_run s es = Some t \<and> pending t = [] \<and>
      filteredDestinations t = applyFilters destinations f"
    using ui_run_from_reset [of ?es s] by (auto simp: set_controls_reach)
qed

theorem controls_and_results_reachable_witness:
  "(\<exists>es t. ui_run init_page es = Some t \<and> pending t = [] \<and>
      captured_filters t = no_filters\<lparr>regionFilter := ''Europe'', interestFilter := ''Cycling''\<rparr>) \<and>
   (\<exists>es t. ui_run init_page es = Some t \<and> pending t = [] \<and>
      filteredDestinations t =
        applyFilters destinations (no_filters\<lparr>regionFilter := ''Europe'', interestFilter := ''Cycling''\<rparr>))"
  by (rule controls_and_results_reachable)
    (simp add: filters_in_domain_def no_filters_def select_items_values)

end
