(* ===== verification/Tabs.thy ===== *)
theory Tabs
  imports Page View
begin

text \<open>
  The \<open>Travel Tips\<close> / \<open>Sample Itinerary\<close> tabs of every destination card
  (\<open>src/app/destinations/page.tsx\<close>, lines 332--373).  Each card holds an
  uncontrolled \<open>Tabs\<close> with \<open>defaultValue="tips"\<close>: its selected value is
  state of the \<open>Tabs\<close> instance, set by clicking a trigger, and a
  \<open>TabsContent\<close> is shown when its value equals it.  React keeps that state
  while a \<open>Card\<close> with the same key (\<open>destination.id\<close>, line 303) stays in
  the grid and drops it when the card leaves; a card that enters is mounted
  with the default value.  The table \<open>vtabs\<close> holds, in grid order, the key
  and selected value of every mounted card; \<open>reconcile_tabs\<close> is React's
  keyed reconciliation after a render, \<open>click_tab\<close> the trigger's click.
  The \<open>Tabs\<close> component and React itself are not in the repository: these two
  operations follow their documented behaviour.  \<open>view_step\<close> composes them
  with \<open>page_step\<close>: every page event re-renders the grid.
\<close>

type_synonym tab_table = "(int \<times> js_string) list"

definition tabs_defaultValue :: js_string where
  "tabs_defaultValue = ''tips''"

definition tab_triggers :: "(js_string \<times> js_string) list" where
  "tab_triggers = [(''tips'', ''Travel Tips''), (''itinerary'', ''Sample Itinerary'')]"

datatype tab_panel =
    TipsPanel "(nat \<times> js_string) list"
  | ItineraryPanel "(js_string \<times> js_string) list"

definition tab_contents :: "card \<Rightarrow> (js_string \<times> tab_panel) list" where
  "tab_contents c = [(''tips'', TipsPanel (tip_items c)), (''itinerary'', ItineraryPanel (itinerary_rows c))]"

definition shown_panels :: "card \<Rightarrow> js_string \<Rightarrow> tab_panel list" where
  "shown_panels c value = map snd (filter (\<lambda>p. fst p = value) (tab_contents c))"

definition tab_value_of :: "tab_table \<Rightarrow> int \<Rightarrow> js_string" where
  "tab_value_of tabs k = (case map_of tabs k of None \<Rightarrow> tabs_defaultValue | Some value \<Rightarrow> value)"

definition reconcile_tabs :: "destination list \<Rightarrow> tab_table \<Rightarrow> tab_table" where
  "reconcile_tabs ds old = map (\<lambda>d. (dest_id d, tab_value_of old (dest_id d))) ds"

definition click_tab :: "int \<Rightarrow> js_string \<Rightarrow> tab_table \<Rightarrow> tab_table" where
  "click_tab key value tabs = map (\<lambda>(k, v). (k, if k = key then value else v)) tabs"

record view_state =
  vpage :: page_state
  vtabs :: tab_table

datatype view_event = PageEvent ui_event | TabClick int js_string

fun view_step :: "view_state \<Rightarrow> view_event \<Rightarrow> view_state option" where
  "view_step v (PageEvent e) =
     (case page_step (vpage v) e of
        None \<Rightarrow> None
      | Some t \<Rightarrow> Some \<lparr>vpage = t, vtabs = reconcile_tabs (filteredDestinations t) (vtabs v)\<rparr>)"
| "view_step v (TabClick key value) =
     (if key \<in> set (map fst (vtabs v)) \<and> value \<in> set (map fst tab_triggers)
      then Some (v\<lparr>vtabs := click_tab key value (vtabs v)\<rparr>) else None)"

definition init_view :: view_state where
  "init_view = \<lparr>vpage = init_page, vtabs = reconcile_tabs destinations []\<rparr>"

inductive view_reachable :: "view_state \<Rightarrow> bool" where
  init: "view_reachable init_view"
| step: "view_reachable v \<Longrightarrow> view_step v x = Some w \<Longrightarrow> view_reachable w"

text \<open>What the grid shows of each card's tabs: the panels whose value is the
  card's selected value.\<close>

definition card_panels :: "view_state \<Rightarrow> (int \<times> tab_panel list) list" where
  "card_panels v =
     map (\<lambda>d. (dest_id d, shown_panels (render_card d) (tab_value_of (vtabs v) (dest_id d))))
       (filteredDestinations (vpage v))"

subsection \<open>Lemmas\<close>

lemma map_of_map_key:
  "distinct (map f xs) \<Longrightarrow> x \<in> set xs \<Longrightarrow> map_of (map (\<lambda>y. (f y, g y)) xs) (f x) = Some (g x)"
  by (induction xs) (auto simp: image_iff)

lemma map_fst_reconcile_tabs [simp]: "map fst (reconcile_tabs ds old) = map dest_id ds"
  by (simp add: reconcile_tabs_def comp_def)

lemma map_fst_click_tab [simp]: "map fst (click_tab key value tabs) = map fst tabs"
  by (induction tabs) (auto simp: click_tab_def)

lemma click_tab_list_all:
  "P tv \<Longrightarrow> list_all (\<lambda>p. P (snd p)) tabs \<Longrightarrow> list_all (\<lambda>p. P (snd p)) (click_tab key tv tabs)"
  by (induction tabs) (auto simp: click_tab_def)

lemma map_of_reconcile_tabs:
  "map_of (reconcile_tabs ds old) k =
     (if k \<in> dest_id ` set ds then Some (tab_value_of old k) else None)"
  by (induction ds) (auto simp: reconcile_tabs_def)

lemma map_of_click_tab:
  "map_of (click_tab key value tabs) k =
     (if k = key \<and> k \<in> set (map fst tabs) then Some value else map_of tabs k)"
  by (induction tabs) (auto simp: click_tab_def rev_image_eqI)

lemma tab_value_of_in_triggers:
  assumes "list_all (\<lambda>p. snd p \<in> set (map fst tab_triggers)) tabs"
  shows "tab_value_of tabs k \<in> set (map fst tab_triggers)"
proof (cases "map_of tabs k")
  case None
  then show ?thesis by (simp add: tab_value_of_def tabs_defaultValue_def tab_triggers_def)
next
  case (Some tv)
  then have "(k, tv) \<in> set tabs" by (rule map_of_SomeD)
  with assms Some show ?thesis by (force simp: tab_value_of_def list_all_iff)
qed

lemma shown_panels_triggers:
  "value \<in> set (map fst tab_triggers) \<Longrightarrow>
   shown_panels c value =
     [if value = ''tips'' then TipsPanel (tip_items c) else ItineraryPanel (itinerary_rows c)]"
  by (auto simp: shown_panels_def tab_contents_def tab_triggers_def)

lemma reachable_ids_distinct:
  assumes "reachable s"
  shows "distinct (map dest_id (filteredDestinations s))"
proof -
  obtain f where "filteredDestinations s = applyFilters destinations f"
    using reachable_display_query [OF assms] by blast
  then have "subseq (filteredDestinations s) destinations" by simp
  then show ?thesis by (rule distinct_map_subseq) simp
qed

text \<open>The tab table has one entry per displayed card, in grid order, holding
  the value of one of the triggers; the page part is a reachable page state.\<close>

lemma view_reachable_inv:
  assumes "view_reachable v"
  shows "map fst (vtabs v) = map dest_id (filteredDestinations (vpage v)) \<and>
         list_all (\<lambda>p. snd p \<in> set (map fst tab_triggers)) (vtabs v) \<and> reachable (vpage v)"
  using assms
proof (induction rule: view_reachable.induct)
  case init
  then show ?case
    by (simp add: init_view_def reconcile_tabs_def comp_def list_all_iff tab_value_of_def
        tabs_defaultValue_def tab_triggers_def reachable.init)
next
  case (step v x w)
  show ?case
  proof (cases x)
    case (PageEvent e)
    with step.hyps(2) obtain t where t: "page_step (vpage v) e = Some t"
      and w: "w = \<lparr>vpage = t, vtabs = reconcile_tabs (filteredDestinations t) (vtabs v)\<rparr>"
      by (auto split: option.splits)
    have "list_all (\<lambda>p. snd p \<in> set (map fst tab_triggers)) (vtabs w)"
      using step.IH tab_value_of_in_triggers by (simp add: w reconcile_tabs_def list_all_iff)
    with w t step.IH show ?thesis by (auto intro: reachable.step)
  next
    case (TabClick key tv)
    with step.hyps(2) have "tv \<in> set (map fst tab_triggers)"
      and w: "w = v\<lparr>vtabs := click_tab key tv (vtabs v)\<rparr>"
      by (auto split: if_splits)
    with step.IH show ?thesis
      using click_tab_list_all [of "\<lambda>x. x \<in> set (map fst tab_triggers)"] by simp
  qed
qed

text \<open>C11: in every reachable state there is one tab entry per displayed
  card, in grid order, and every card shows exactly one panel of its tabs.\<close>

theorem each_card_one_panel:
  assumes "view_reachable v"
  shows "map fst (vtabs v) = map dest_id (filteredDestinations (vpage v)) \<and>
         list_all (\<lambda>p. length (snd p) = 1) (card_panels v)"
proof -
  have inv: "map fst (vtabs v) = map dest_id (filteredDestinations (vpage v))"
    "list_all (\<lambda>p. snd p \<in> set (map fst tab_triggers)) (vtabs v)"
    using view_reachable_inv [OF assms] by simp_all
  have "list_all (\<lambda>p. length (snd p) = 1) (card_panels v)"
    using shown_panels_triggers [OF tab_value_of_in_triggers [OF inv(2)]]
    by (simp add: card_panels_def list_all_iff)
  with inv(1) show ?thesis ..
qed

theorem each_card_one_panel_witness:
  "map fst (vtabs init_view) = map dest_id (filteredDestinations (vpage init_view)) \<and>
   list_all (\<lambda>p. length (snd p) = 1) (card_panels init_view)"
  using each_card_one_panel [OF view_reachable.init] .

text \<open>C12: a page event (filter change, reset or timer) keeps the selected
  tab of every card that stays in the grid, and a card that enters the grid
  opens on Travel Tips, whatever tab it showed when it was last displayed.\<close>

theorem tab_kept_across_page_events:
  assumes "view_reachable v" and "view_step v (PageEvent e) = Some w"
    and "k \<in> set (map dest_id (filteredDestinations (vpage w)))"
  shows "tab_value_of (vtabs w) k =
           (if k \<in> set (map dest_id (filteredDestinations (vpage v))) then tab_value_of (vtabs v) k
            else ''tips'')"
proof -
  obtain t where t: "page_step (vpage v) e = Some t"
    and w: "w = \<lparr>vpage = t, vtabs = reconcile_tabs (filteredDestinations t) (vtabs v)\<rparr>"
    using assms(2) by (auto split: option.splits)
  have keys: "map fst (vtabs v) = map dest_id (filteredDestinations (vpage v))"
    using view_reachable_inv [OF assms(1)] by simp
  have "tab_value_of (vtabs w) k = tab_value_of (vtabs v) k"
    using assms(3) by (auto simp: w tab_value_of_def map_of_reconcile_tabs)
  moreover have "tab_value_of (vtabs v) k = ''tips''" if "k \<notin> set (map fst (vtabs v))"
  proof -
    have "map_of (vtabs v) k = None" using that by (simp add: map_of_eq_None_iff)
    then show ?thesis by (simp add: tab_value_of_def tabs_defaultValue_def)
  qed
  ultimately show ?thesis using keys by auto
qed

theorem tab_kept_across_page_events_witness:
  "view_step (init_view\<lparr>vtabs := click_tab 1 ''itinerary'' (vtabs init_view)\<rparr>)
     (PageEvent (RegionChange ''Europe'')) =
     Some \<lparr>vpage = handleRegionChange ''Europe'' init_page,
           vtabs = reconcile_tabs destinations (click_tab 1 ''itinerary'' (vtabs init_view))\<rparr> \<and>
   tab_value_of (reconcile_tabs destinations (click_tab 1 ''itinerary'' (vtabs init_view))) 1 =
     ''itinerary''"
proof -
  let ?v = "init_view\<lparr>vtabs := click_tab 1 ''itinerary'' (vtabs init_view)\<rparr>"
  let ?w = "\<lparr>vpage = handleRegionChange ''Europe'' init_page,
             vtabs = reconcile_tabs destinations (click_tab 1 ''itinerary'' (vtabs init_view))\<rparr>"
  have ids: "map fst (vtabs init_view) = [1, 2, 3, 4, 5, 6]"
    by (simp add: init_view_def)
  have "view_step init_view (TabClick 1 ''itinerary'') = Some ?v"
    using ids by (simp add: tab_triggers_def)
  then have reach: "view_reachable ?v"
    by (rule view_reachable.step [OF view_reachable.init])
  have step: "view_step ?v (PageEvent (RegionChange ''Europe'')) = Some ?w"
    by (simp add: init_view_def handler_display)
  have "tab_value_of (vtabs ?w) 1 =
      (if 1 \<in> set (map dest_id (filteredDestinations (vpage ?v))) then tab_value_of (vtabs ?v) 1
       else ''tips'')"
    by (rule tab_kept_across_page_events [OF reach step]) (simp add: handler_display)
  then have "tab_value_of (vtabs ?w) 1 = ''itinerary''"
    using ids by (simp add: init_view_def tab_value_of_def map_of_click_tab)
  with step show ?thesis by simp
qed

text \<open>C14: clicking a trigger of a displayed card makes that card show the
  trigger's panel (the tips or the five itinerary rows), leaves the page
  state and the tabs of every other card as they were.\<close>

theorem tab_click_roundtrip:
  assumes "view_reachable v" and "d \<in> set (filteredDestinations (vpage v))"
    and "(tv, label) \<in> set tab_triggers"
  shows "\<exists>w. view_step v (TabClick (dest_id d) tv) = Some w \<and> vpage w = vpage v \<and>
           map_of (card_panels w) (dest_id d) =
             Some [if tv = ''tips'' then TipsPanel (tip_items (render_card d))
                   else ItineraryPanel (itinerary_rows (render_card d))] \<and>
           (\<forall>k. k \<noteq> dest_id d \<longrightarrow> tab_value_of (vtabs w) k = tab_value_of (vtabs v) k)"
proof -
  let ?w = "v\<lparr>vtabs := click_tab (dest_id d) tv (vtabs v)\<rparr>"
  have inv: "map fst (vtabs v) = map dest_id (filteredDestinations (vpage v))"
    "reachable (vpage v)"
    using view_reachable_inv [OF assms(1)] by simp_all
  have key: "dest_id d \<in> set (map fst (vtabs v))" and tv: "tv \<in> set (map fst tab_triggers)"
    using inv(1) assms(2,3) by force+
  then have step: "view_step v (TabClick (dest_id d) tv) = Some ?w" by simp
  have "tab_value_of (vtabs ?w) (dest_id d) = tv"
    using key by (simp add: tab_value_of_def map_of_click_tab)
  then have "map_of (card_panels ?w) (dest_id d) = Some (shown_panels (render_card d) tv)"
    unfolding card_panels_def
    using map_of_map_key [OF reachable_ids_distinct [OF inv(2)] assms(2),
        where g = "\<lambda>x. shown_panels (render_card x) (tab_value_of (vtabs ?w) (dest_id x))"]
    by simp
  moreover have "\<forall>k. k \<noteq> dest_id d \<longrightarrow> tab_value_of (vtabs ?w) k = tab_value_of (vtabs v) k"
    by (simp add: tab_value_of_def map_of_click_tab)
  ultimately show ?thesis using step shown_panels_triggers [OF tv] by auto
qed

theorem tab_click_roundtrip_witness:
  "\<exists>w. view_step init_view (TabClick 1 ''itinerary'') = Some w \<and> vpage w = vpage init_view \<and>
     map_of (card_panels w) 1 = Some [ItineraryPanel (itinerary_rows (render_card boulder))] \<and>
     (\<forall>k. k \<noteq> 1 \<longrightarrow> tab_value_of (vtabs w) k = tab_value_of (vtabs init_view) k)"
  using tab_click_roundtrip [OF view_reachable.init, of boulder "''itinerary''" "''Sample Itinerary''"]
  by (simp add: init_view_def tab_triggers_def destinations_def boulder_def)

end
