(* ===== verification/Landing.thy ===== *)
theory Landing
  imports Catalog
begin

text \<open>
  The static parts of the site: the landing page \<open>src/app/page.tsx\<close> (its
  header, the hero with its call-to-action link and image, the three
  \<open>Why Choose Us\<close> features, the three featured-destination cards and the
  footer; the features' SVG icons are markup and not modelled) and the
  header and footer that \<open>src/app/destinations/page.tsx\<close> repeats.  A
  link is a (label, href) pair.
\<close>

type_synonym link = "js_string \<times> js_string"

definition home_header_links :: "link list" where
  "home_header_links =
     [(''AthleticDestinations'', ''/''), (''Home'', ''/''), (''Destinations'', ''/destinations''),
      (''About'', ''#''), (''Contact'', ''#'')]"

definition explore_link :: link where
  "explore_link = (''Explore Destinations'', ''/destinations'')"

definition view_all_link :: link where
  "view_all_link = (''View All Destinations'', ''/destinations'')"

definition home_footer_links :: "link list" where
  "home_footer_links = [(''Terms of Service'', ''#''), (''Privacy'', ''#'')]"

definition destinations_header_links :: "link list" where
  "destinations_header_links =
     [(''AthleticDestinations'', ''/''), (''Home'', ''/''), (''Destinations'', ''/destinations''),
      (''About'', ''#''), (''Contact'', ''#'')]"

definition destinations_footer_links :: "link list" where
  "destinations_footer_links = [(''Terms of Service'', ''#''), (''Privacy'', ''#'')]"

record hero =
  hero_title :: js_string
  hero_text :: js_string
  hero_cta :: link
  hero_img :: js_string
  hero_alt :: js_string

definition home_hero :: hero where
  "home_hero =
     \<lparr>hero_title = ''Travel Destinations for Athletes'',
      hero_text = ''Discover the perfect destinations for your athletic adventures. From mountain trails to coastal routes, we have curated the best locations for every sport.'',
      hero_cta = explore_link,
      hero_img = ''/placeholder.svg?height=550&width=550'',
      hero_alt = ''Athletes traveling''\<rparr>"

record feature =
  feature_title :: js_string
  feature_text :: js_string

definition why_choose_us_intro :: "js_string \<times> js_string" where
  "why_choose_us_intro =
     (''Why Choose Us'', ''We understand the unique needs of athletes when traveling. Our curated destinations and itineraries are designed with your training and performance in mind.'')"

definition feature_athletic :: feature where
  "feature_athletic =
     \<lparr>feature_title = ''Athletic-Focused'',
      feature_text = ''All our destinations are selected with athletes in mind, featuring training facilities and routes.''\<rparr>"

definition feature_itineraries :: feature where
  "feature_itineraries =
     \<lparr>feature_title = ''Detailed Itineraries'',
      feature_text = ''Our sample itineraries include training schedules and recovery options.''\<rparr>"

definition feature_advice :: feature where
  "feature_advice =
     \<lparr>feature_title = ''Expert Advice'',
      feature_text = ''Travel tips from professional athletes and sports nutritionists.''\<rparr>"

record featured_card =
  featured_img :: js_string
  featured_alt :: js_string
  featured_title :: js_string
  featured_blurb :: js_string

definition featured_destinations :: "featured_card list" where
  "featured_destinations =
     [\<lparr>featured_img = ''/placeholder.svg?height=300&width=400'', featured_alt = ''Boulder, Colorado'',
       featured_title = ''Boulder, Colorado'', featured_blurb = ''Perfect for trail runners and cyclists''\<rparr>,
      \<lparr>featured_img = ''/placeholder.svg?height=300&width=400'', featured_alt = ''Mallorca, Spain'',
       featured_title = ''Mallorca, Spain'', featured_blurb = ''Cycling paradise with scenic coastal routes''\<rparr>,
      \<lparr>featured_img = ''/placeholder.svg?height=300&width=400'', featured_alt = ''Kona, Hawaii'',
       featured_title = ''Kona, Hawaii'', featured_blurb = ''Triathlon training with year-round warm weather''\<rparr>]"

end
