(* ===== verification/Spec2Isabelle.thy ===== *)
theory Spec2Isabelle
  imports Controls Tabs Landing
begin

text \<open>
  \<^bold>\<open>Athletic destinations website: verification development.\<close>

  The repository is a two-page Next.js site.  \<open>src/app/page.tsx\<close> is a
  static landing page; \<open>src/app/destinations/page.tsx\<close> holds a hardcoded
  catalog of six destinations and a React component, \<open>DestinationsPage\<close>,
  that filters it by region, interest and free-text search.  The logic of the
  site is that filter, the component state around it (four \<open>useState\<close>
  hooks, three change handlers that schedule \<open>applyFilters\<close> with
  \<open>setTimeout(..., 0)\<close>, a reset), what the component renders, and the
  per-card tabs.  The development models all of these, and the content and
  links of both pages.

  \<^bold>\<open>Theories, in import order.\<close>
  \<^item> \<open>Prelude\<close>: the JavaScript built-ins the filter calls, as executable
    functions: \<open>js_truthy\<close> (a string in an \<open>if\<close>), \<open>toLowerCase\<close> (ASCII
    letters), \<open>str_includes\<close> (\<open>String.prototype.includes\<close>, the left-to-right
    search loop, shown equal to \<open>sublist\<close>), \<open>arr_includes\<close>
    (\<open>Array.prototype.includes\<close>), \<open>js_set_from\<close> (\<open>[...new Set(xs)]\<close>).
  \<^item> \<open>Catalog\<close>: the records \<open>destination\<close> and \<open>itinerary\<close> and the constant
    \<open>destinations\<close> (page.tsx lines 16--139), all six entries with every
    field; non-ASCII characters are written as their UTF-8 bytes.
    \<open>interests_wf\<close> (non-empty, duplicate-free interests) is the part of the
    spec's data invariant the rendering relies on.
  \<^item> \<open>Query\<close>: \<open>applyFilters\<close> (lines 152--174) as three guarded passes in
    the source's order (\<open>region_pass\<close>, \<open>interest_pass\<close>, \<open>search_pass\<close>),
    the record \<open>filter_state\<close> of the three filter values (lines 143--145,
    the empty string meaning unset, as the code's truthiness tests do), and
    the option lists \<open>regions\<close>/\<open>interests_of\<close> (lines 148--149).  The
    abstract specification \<open>matches\<close> is the spec's conjunction of the three
    predicates; \<open>applyFilters\<close> refines it (C1).  Further: the laws of a
    restriction (identity with no filter, idempotence, narrowing: C6),
    case-insensitive search (C7), unknown regions (C9) and interest
    membership (C10), all for any catalog.
  \<^item> \<open>Page\<close>: the component's state as the record \<open>page_state\<close> (its
    \<open>useState\<close> hooks, lines 142--145) extended by \<open>pending\<close>, the queue of
    callbacks scheduled by \<open>setTimeout(() => applyFilters(), 0)\<close>.  The
    handlers \<open>handleRegionChange\<close>, \<open>handleInterestChange\<close>,
    \<open>handleSearchChange\<close> (lines 177--190) set their filter and enqueue the
    \<open>applyFilters\<close> closure of the render that created them, which has captured
    the filter values from before the change (\<open>captured_filters\<close> of the old
    state); \<open>resetFilters\<close> (lines 193--198) clears the filters and shows the
    catalog; \<open>fire_timer\<close> runs the oldest callback.  \<open>page_step\<close> takes a
    UI event or a timer firing (an \<open>option\<close>: no timer fires when none is
    pending); \<open>run\<close> runs a list of them and \<open>reachable\<close> is the inductive
    set of states reachable from \<open>init_page\<close>.  Events and timers interleave
    freely there, which over-approximates what a person can produce (a 0 ms
    timer fires before the next click): the invariants (C4, C5, C16, C17)
    hold for all those interleavings, while the claims about particular runs
    use the usual schedule, each event followed by its timer.  \<open>drain\<close> runs
    every pending callback; it terminates (measure: the queue's length).
    Results: after a change the settled display shows the query of the filter
    values from before it (C2), so a reachable settled state shows a list
    that is not the query of its controls (C3); the display is always an
    order-preserving, duplicate-free selection of the catalog (C4); the
    \<open>All Regions\<close> option, whose value \<open>all\<close> is stored verbatim, empties the
    list (C13); and whatever the page shows is the query of a filter state
    the controls held at some point of the run (C17, over
    \<open>reachable_hist\<close>, the runs with a ghost history of the filter values).
  \<^item> \<open>View\<close>: \<open>render_results\<close> (lines 292--379) maps the displayed list to
    the empty-result message or a grid of \<open>card\<close> records carrying the React
    keys; \<open>region_select_items\<close>/\<open>interest_select_items\<close> (lines 254--282) are
    the selector options, whose values are distinct for any catalog without
    a literal \<open>all\<close> (C15).
  \<^item> \<open>Schedule\<close>: the usual schedule (\<open>sync\<close>) and \<open>change_filters\<close>, the
    effect of an event on the three filter values (the setters of lines
    177--198).  Under that schedule any list of changes ends with every
    callback run and the display showing the query of all changes but the
    last (C18, by induction over the list).
  \<^item> \<open>Controls\<close>: the controls as the user sees them.  \<open>select_label\<close> is
    the documented behaviour of the \<open>Select\<close> of \<open>@/components/ui\<close> (not in the
    repository): the empty value shows the placeholder, another value the
    label of its item; \<open>region_control\<close>/\<open>interest_control\<close> are the two
    selectors of lines 254--282.  \<open>ui_event_ok\<close> says which values the
    controls can deliver (an item value from a Select, any text from the
    search box) and \<open>ui_reachable\<close> is the set of states reachable with them;
    this over-approximates the controls, which is sound for the invariant
    C19: filter values, also those captured by pending callbacks, stay unset
    or an option value.  The exact event sources are \<open>ui_step\<close>/\<open>ui_run\<close>:
    a Select calls \<open>onValueChange\<close> and the Input fires \<open>onChange\<close> only when
    the value changes (\<open>changes_control\<close>).  Results: choosing an option shows
    its label (C20, a round trip); and from any state, with only delivered
    events, the controls can be set to any combination of option values and
    text, and the result of any such combination can be shown, both with
    nothing pending, but by different runs, since the list is one change
    behind (C21, liveness).
  \<^item> \<open>Tabs\<close>: the \<open>Travel Tips\<close> / \<open>Sample Itinerary\<close> tabs of
    each card (lines 332--373): \<open>tabs_defaultValue\<close>, \<open>tab_triggers\<close> and
    \<open>tab_contents\<close> translate the \<open>Tabs\<close>, \<open>TabsTrigger\<close> and \<open>TabsContent\<close>
    elements.  The selected value is state of each mounted \<open>Tabs\<close>; the table
    \<open>vtabs\<close> keeps it per card key (\<open>destination.id\<close>, line 303).
    \<open>reconcile_tabs\<close> (React's keyed reconciliation) and \<open>click_tab\<close> (a
    trigger's click) follow the documented behaviour of React and of the
    \<open>Tabs\<close> component, neither of which is in the repository.  \<open>view_step\<close>
    composes them with \<open>page_step\<close>, and \<open>view_reachable\<close> is the set of
    states reachable with page events and tab clicks.  Results: one tab entry
    per displayed card, and every card shows exactly one panel (C11); a page
    event keeps the selected tab of every card that stays displayed, and a
    card that comes back opens on Travel Tips (C12); clicking a trigger shows
    its own panel and changes nothing else (C14, a round trip).
  \<^item> \<open>Landing\<close>: the header links, the hero (\<open>home_hero\<close>), the \<open>Why Choose
    Us\<close> features, the featured cards and the footer of \<open>src/app/page.tsx\<close>,
    and the header and footer of the destinations page, as data.
  \<^item> This theory: the properties that span components: in every reachable
    state the rendered grid has unique React keys (C5) and every card is the
    card of a catalog entry with at least one interest badge (C16); and every
    image the site renders has a source, thanks to the card's
    \<open>|| "/placeholder.svg"\<close> fallback for any destination data, and an alt
    text (C8).

  \<^bold>\<open>Modelling choices.\<close>  Strings are byte lists; \<open>toLowerCase\<close> lowers
  the ASCII letters only, which is exact on the catalog's names and
  descriptions (all ASCII) and differs from JavaScript only on a few
  non-ASCII queries (e.g. the Kelvin sign, which JavaScript lowers to
  \<open>k\<close>); no claim depends on those.  React is modelled by its observable
  contract for discrete events: the state updates of one event are committed
  before the next event, and callbacks scheduled with the same delay run in
  scheduling order.  No fuel is used: \<open>drain\<close> is a terminating
  \<open>function\<close>, and a timer firing with an empty queue is \<open>None\<close>.

  \<^bold>\<open>Not modelled.\<close>  Styling, layout, icons, the \<open>next/image\<close> and UI
  library components (\<open>@/components/ui/*\<close>, which are not in the
  repository; of \<open>Select\<close> only the displayed label is modelled, in
  \<open>Controls\<close>, and of \<open>Tabs\<close> its selected value, in \<open>Tabs\<close>), the SVG
  icons of the features, and the remaining headings and intro paragraphs
  (the destinations page's banner, the filter panel's and the featured
  section's titles, the copyright line): they carry no logic, and no
  property of the site depends on their wording.  The landing page and the
  links are modelled as data only: every property one can state of them is
  a computation on constants.
\<close>

text \<open>C5: in every reachable state of the page the rendered results have
  unique React keys: no two cards share \<open>destination.id\<close> and no card shows
  the same interest badge twice.\<close>

theorem card_keys_unique:
  assumes "reachable s"
  shows "view_keys_unique (render_results (filteredDestinations s))"
proof -
  obtain f where f: "filteredDestinations s = applyFilters destinations f"
    using reachable_display_query [OF assms] by blast
  have sub: "subseq (filteredDestinations s) destinations"
    by (simp add: f)
  have "distinct (map dest_id (filteredDestinations s))"
    by (rule distinct_map_subseq [OF sub]) simp
  moreover have "interests_wf (filteredDestinations s)"
    by (rule interests_wf_subseq [OF sub]) simp
  ultimately show ?thesis by (rule render_results_keys)
qed

theorem card_keys_unique_witness:
  "view_keys_unique (render_results (filteredDestinations init_page))"
  using card_keys_unique [OF reachable.init] .



text \<open>C8: every image the site renders has a source and an alternative
  text: a card falls back to \<open>/placeholder.svg\<close> whatever the destination's
  \<open>image\<close> field holds (line 306), and in every reachable state each card of
  the grid, the hero image and the featured images of the landing page carry
  a non-empty source and alt text.\<close>

theorem site_images_described:
  assumes "reachable s" and "render_results (filteredDestinations s) = CardGrid cs"
  shows "image_src (render_card d) \<noteq> [] \<and>
         list_all (\<lambda>c. image_src c \<noteq> [] \<and> image_alt c \<noteq> []) cs \<and>
         hero_img home_hero \<noteq> [] \<and> hero_alt home_hero \<noteq> [] \<and>
         list_all (\<lambda>c. featured_img c \<noteq> [] \<and> featured_alt c \<noteq> []) featured_destinations"
proof -
  have src: "image_src (render_card x) \<noteq> []" for x
    by (simp add: render_card_def js_truthy_def)
  obtain f where f: "filteredDestinations s = applyFilters destinations f"
    using reachable_display_query [OF assms(1)] by blast
  from assms(2) have cs: "cs = map render_card (filteredDestinations s)"
    by (simp add: render_results_def split: if_splits)
  have "list_all (\<lambda>d. name d \<noteq> []) destinations"
    by (simp add: destinations_def destination_defs)
  then have "list_all (\<lambda>c. image_src c \<noteq> [] \<and> image_alt c \<noteq> []) cs"
    using src by (auto simp: cs f filter_simps list_all_iff render_card_def)
  moreover have "hero_img home_hero \<noteq> [] \<and> hero_alt home_hero \<noteq> [] \<and>
      list_all (\<lambda>c. featured_img c \<noteq> [] \<and> featured_alt c \<noteq> []) featured_destinations"
    by (simp add: home_hero_def featured_destinations_def)
  ultimately show ?thesis using src by blast
qed

theorem site_images_described_witness:
  "image_src (render_card boulder) \<noteq> [] \<and>
   list_all (\<lambda>c. image_src c \<noteq> [] \<and> image_alt c \<noteq> []) (map render_card destinations) \<and>
   hero_img home_hero \<noteq> [] \<and> hero_alt home_hero \<noteq> [] \<and>
   list_all (\<lambda>c. featured_img c \<noteq> [] \<and> featured_alt c \<noteq> []) featured_destinations"
proof -
  have "render_results (filteredDestinations init_page) = CardGrid (map render_card destinations)"
    by (simp add: render_results_def destinations_def)
  then show ?thesis by (rule site_images_described [OF reachable.init])
qed

end
